theory Spec2Isabelle
  imports Main "HOL-Library.AList" "HOL-Library.Char_ord" "HOL-Library.List_Lexorder"
begin

section \<open>Python text primitives used by rack\<close>

text \<open>
  A Python \<open>str\<close> is modelled as a \<open>string\<close>: a list of code points below 256
  (an Isabelle \<open>char\<close> is eight bits wide). The text that rack reads is the decoded
  output of git; \<open>bytes.decode\<close> is outside the model. The character classes below are
  those of CPython 3.11 restricted to this range.
\<close>

datatype pyerr =
    ValueError | TypeError | KeyError | IndexError | OSError
  | NotImplementedError | SystemExit int

definition isspace :: "char \<Rightarrow> bool" where
  \<comment> \<open>\<open>str.isspace\<close> on one character: the class \<open>str.strip()\<close> removes.\<close>
  "isspace c = (let n = (of_char c :: nat) in
     (9 \<le> n \<and> n \<le> 13) \<or> (28 \<le> n \<and> n \<le> 32) \<or> n = 133 \<or> n = 160)"

definition strip :: "string \<Rightarrow> string" where
  "strip s = rev (dropWhile isspace (rev (dropWhile isspace s)))"

definition startswith :: "string \<Rightarrow> string \<Rightarrow> bool" where
  "startswith s p = (take (length p) s = p)"

definition lower_char :: "char \<Rightarrow> char" where
  "lower_char c = (let n = (of_char c :: nat) in
     if (65 \<le> n \<and> n \<le> 90) \<or> (192 \<le> n \<and> n \<le> 222 \<and> n \<noteq> 215)
     then char_of (n + 32) else c)"

definition lower :: "string \<Rightarrow> string" where
  "lower s = map lower_char s"

text \<open>\<open>s.split(sep)\<close> for a one-character separator: every occurrence splits.\<close>

fun split :: "char \<Rightarrow> string \<Rightarrow> string list" where
  "split sep [] = [[]]"
| "split sep (x # xs) =
     (if x = sep then [] # split sep xs
      else (case split sep xs of
              [] \<Rightarrow> [[x]]
            | w # ws \<Rightarrow> (x # w) # ws))"

text \<open>\<open>s.split(sep, maxsplit)\<close>: at most \<open>maxsplit\<close> splits, counted from the left.\<close>

fun splitn :: "char \<Rightarrow> nat \<Rightarrow> string \<Rightarrow> string list" where
  "splitn sep 0 s = [s]"
| "splitn sep (Suc n) [] = [[]]"
| "splitn sep (Suc n) (x # xs) =
     (if x = sep then [] # splitn sep n xs
      else (case splitn sep (Suc n) xs of
              [] \<Rightarrow> [[x]]
            | w # ws \<Rightarrow> (x # w) # ws))"

definition is_linebreak :: "char \<Rightarrow> bool" where
  \<comment> \<open>the line boundaries of \<open>str.splitlines\<close>: LF, VT, FF, CR, FS, GS, RS, NEL\<close>
  "is_linebreak c = (let n = (of_char c :: nat) in
     (10 \<le> n \<and> n \<le> 13) \<or> (28 \<le> n \<and> n \<le> 30) \<or> n = 133)"

text \<open>
  \<open>str.splitlines()\<close>: CR LF counts as one boundary and no empty line is reported after
  the last boundary. \<open>cur\<close> holds the current line, reversed.
\<close>

fun splitlines_from :: "string \<Rightarrow> string \<Rightarrow> string list" where
  "splitlines_from cur [] = (if cur = [] then [] else [rev cur])"
| "splitlines_from cur [x] =
     (if is_linebreak x then [rev cur] else [rev (x # cur)])"
| "splitlines_from cur (x # y # ys) =
     (if x = CHR 0x0D \<and> y = CHR 0x0A then rev cur # splitlines_from [] ys
      else if is_linebreak x then rev cur # splitlines_from [] (y # ys)
      else splitlines_from (x # cur) (y # ys))"

definition splitlines :: "string \<Rightarrow> string list" where
  "splitlines s = splitlines_from [] s"

definition is_digit :: "char \<Rightarrow> bool" where
  "is_digit c = (let n = (of_char c :: nat) in 48 \<le> n \<and> n \<le> 57)"

definition digit_val :: "char \<Rightarrow> int" where
  "digit_val c = int (of_char c) - 48"

definition int_space :: "char \<Rightarrow> bool" where
  \<comment> \<open>the blanks \<open>int()\<close> skips around a numeral: unlike \<open>isspace\<close>, not FS, GS, RS, US\<close>
  "int_space c = (let n = (of_char c :: nat) in
     (9 \<le> n \<and> n \<le> 13) \<or> n = 32 \<or> n = 133 \<or> n = 160)"

definition max_str_digits :: nat where
  \<comment> \<open>\<open>sys.int_info.default_max_str_digits\<close>\<close>
  "max_str_digits = 4300"

text \<open>
  The digits of a decimal numeral: groups of digits with single underscores between them.
  \<open>prev\<close> tells whether the previous character was a digit.
\<close>

fun numeral_digits :: "bool \<Rightarrow> string \<Rightarrow> string option" where
  "numeral_digits prev [] = (if prev then Some [] else None)"
| "numeral_digits prev (c # cs) =
     (if is_digit c then map_option ((#) c) (numeral_digits True cs)
      else if c = CHR ''_'' \<and> prev then numeral_digits False cs
      else None)"

definition decimal_value :: "string \<Rightarrow> int" where
  "decimal_value ds = foldl (\<lambda>acc c. 10 * acc + digit_val c) 0 ds"

definition parse_unsigned :: "string \<Rightarrow> int option" where
  "parse_unsigned s =
     (case numeral_digits False s of
        None \<Rightarrow> None
      | Some ds \<Rightarrow> if length ds > max_str_digits then None else Some (decimal_value ds))"

definition py_int :: "string \<Rightarrow> int option" where
  \<comment> \<open>\<open>int(s)\<close> in base ten; \<open>None\<close> is \<open>ValueError\<close>\<close>
  "py_int s =
     (case rev (dropWhile int_space (rev (dropWhile int_space s))) of
        [] \<Rightarrow> None
      | c # cs \<Rightarrow>
          if c = CHR ''-'' then map_option uminus (parse_unsigned cs)
          else if c = CHR ''+'' then parse_unsigned cs
          else parse_unsigned (c # cs))"

text \<open>\<open>repr(s)\<close> of a string, as the \<open>!r\<close> conversion of an f-string gives it.\<close>

definition hex_digit :: "nat \<Rightarrow> char" where
  "hex_digit k = ''0123456789abcdef'' ! (k mod 16)"

definition printable :: "char \<Rightarrow> bool" where
  "printable c = (let n = (of_char c :: nat) in
     (32 \<le> n \<and> n < 127) \<or> (161 \<le> n \<and> n \<noteq> 173))"

definition repr_char :: "char \<Rightarrow> char \<Rightarrow> string" where
  "repr_char quote c =
     (if c = quote \<or> c = CHR 0x5C then [CHR 0x5C, c]
      else if c = CHR 0x09 then [CHR 0x5C, CHR ''t'']
      else if c = CHR 0x0A then [CHR 0x5C, CHR ''n'']
      else if c = CHR 0x0D then [CHR 0x5C, CHR ''r'']
      else if printable c then [c]
      else [CHR 0x5C, CHR ''x'', hex_digit (of_char c div 16), hex_digit (of_char c)])"

definition repr :: "string \<Rightarrow> string" where
  "repr s =
     (let quote = (if CHR 0x27 \<in> set s \<and> CHR 0x22 \<notin> set s then CHR 0x22 else CHR 0x27)
      in [quote] @ concat (map (repr_char quote) s) @ [quote])"

text \<open>\<open>str(n)\<close> of an integer, and the format specification \<open><4\<close>.\<close>

fun str_nat :: "nat \<Rightarrow> string" where
  "str_nat n =
     (if n < 10 then [char_of (48 + n)]
      else str_nat (n div 10) @ [char_of (48 + n mod 10)])"

declare str_nat.simps [simp del]

definition str_int :: "int \<Rightarrow> string" where
  "str_int i = (if i < 0 then CHR ''-'' # str_nat (nat (- i)) else str_nat (nat i))"

definition ljust :: "nat \<Rightarrow> string \<Rightarrow> string" where
  "ljust width s = s @ replicate (width - length s) (CHR '' '')"

text \<open>\<open>os.path.join\<close> on a POSIX system, for two components.\<close>

definition path_join :: "string \<Rightarrow> string \<Rightarrow> string" where
  "path_join a b =
     (if startswith b ''/'' then b
      else if a = [] \<or> last a = CHR ''/'' then a @ b
      else a @ ''/'' @ b)"

section \<open>The world outside the program, and the program's state\<close>

text \<open>
  \<open>subprocess.run\<close> is a function of the directory the command runs in and of its
  arguments: within one run of rack every query precedes every command that changes a
  repository. Directories are named by absolute paths (the default working directory is
  \<open>os.getcwd()\<close>), so that the \<open>os.chdir\<close> calls do not change what a path names, and
  they exist. \<open>listdir p\<close> is \<open>Some\<close> of the entries of \<open>p\<close> when \<open>p\<close> is a directory.
  The configuration is the dictionary that \<open>load_rack_config\<close> returns (empty when there
  is no \<open>.rack.yaml\<close>), its values lists of strings.
\<close>

record completed =
  returncode :: int
  stdout :: string

record world =
  git :: "string \<Rightarrow> string list \<Rightarrow> completed"
  listdir :: "string \<Rightarrow> string list option"
  rack_config :: "string \<rightharpoonup> string list"
  home :: "string option"

datatype delta = Count int | NaN

datatype level = DEBUG | INFO | WARNING | ERROR | CRITICAL

datatype pyarg = PInt int | PStr string | PExc pyerr

text \<open>
  What a run does that can be observed: the subprocesses it starts (directory and
  arguments), the lines it prints, the records it hands to \<open>logging.Logger\<close>, and the
  table of the \<open>list\<close> action (each row with its style).
\<close>

datatype event =
    Ran string "string list"
  | Print string
  | Logged level pyarg
  | PrintTable "(string list \<times> string) list"

type_synonym status_record = "string \<times> string \<times> delta"

type_synonym file_diffs = "(string \<times> (char \<times> string) list) list"

record state =
  events :: "event list"
  status_cache :: "((string \<times> bool \<times> bool) \<times> status_record list) list"
  diff_cache :: "(string \<times> file_diffs) list"
  remotes_cache :: "(string \<times> string list) list"

definition emit :: "event \<Rightarrow> state \<Rightarrow> state" where
  "emit e st = st\<lparr>events := events st @ [e]\<rparr>"

definition run :: "world \<Rightarrow> string \<Rightarrow> string list \<Rightarrow> state \<Rightarrow> completed \<times> state" where
  "run w cwd argv st = (git w cwd argv, emit (Ran cwd argv) st)"

definition isdir :: "world \<Rightarrow> string \<Rightarrow> bool" where
  "isdir w p = (listdir w p \<noteq> None)"

subsection \<open>\<open>functools.lru_cache\<close>\<close>

text \<open>
  The cache keeps the 128 most recently used results, the most recent first. A call that
  raises stores nothing.
\<close>

definition lru_hit :: "'k \<Rightarrow> 'v \<Rightarrow> ('k \<times> 'v) list \<Rightarrow> ('k \<times> 'v) list" where
  "lru_hit k v c = (k, v) # filter (\<lambda>kv. fst kv \<noteq> k) c"

definition lru_miss :: "'k \<Rightarrow> 'v \<Rightarrow> ('k \<times> 'v) list \<Rightarrow> ('k \<times> 'v) list" where
  "lru_miss k v c = take 128 ((k, v) # filter (\<lambda>kv. fst kv \<noteq> k) c)"

section \<open>output.py: the logger\<close>

text \<open>
  \<open>VerbosityLogger.debug\<close>, \<open>info\<close>, \<open>warning\<close>, \<open>error\<close> and \<open>critical\<close> are declared
  \<open>def error(self, verbosity, msg, *args, **kwargs)\<close>. A call binds its positional
  arguments first: with fewer than two the call raises \<open>TypeError\<close> before the body runs.
  In the body, \<open>self.verbosity >= verbosity\<close> raises \<open>TypeError\<close> unless \<open>verbosity\<close> is a
  number.
\<close>

definition log_method :: "level \<Rightarrow> nat \<Rightarrow> pyarg list \<Rightarrow> state \<Rightarrow> pyerr + state" where
  "log_method lvl self_verbosity args st =
     (case args of
        verbosity # msg # rest \<Rightarrow>
          (case verbosity of
             PInt n \<Rightarrow> if int self_verbosity \<ge> n then Inr (emit (Logged lvl msg) st) else Inr st
           | _ \<Rightarrow> Inl TypeError)
      | _ \<Rightarrow> Inl TypeError)"

definition VerbosityLogger_debug :: "nat \<Rightarrow> pyarg list \<Rightarrow> state \<Rightarrow> pyerr + state" where
  "VerbosityLogger_debug = log_method DEBUG"

definition VerbosityLogger_info :: "nat \<Rightarrow> pyarg list \<Rightarrow> state \<Rightarrow> pyerr + state" where
  "VerbosityLogger_info = log_method INFO"

definition VerbosityLogger_warning :: "nat \<Rightarrow> pyarg list \<Rightarrow> state \<Rightarrow> pyerr + state" where
  "VerbosityLogger_warning = log_method WARNING"

definition VerbosityLogger_error :: "nat \<Rightarrow> pyarg list \<Rightarrow> state \<Rightarrow> pyerr + state" where
  "VerbosityLogger_error = log_method ERROR"

definition VerbosityLogger_critical :: "nat \<Rightarrow> pyarg list \<Rightarrow> state \<Rightarrow> pyerr + state" where
  "VerbosityLogger_critical = log_method CRITICAL"

definition Logger_exception :: "nat \<Rightarrow> pyarg \<Rightarrow> state \<Rightarrow> pyerr + state" where
  \<comment> \<open>inherited from \<open>logging.Logger\<close>: \<open>self.error(msg, exc_info=True)\<close>\<close>
  "Logger_exception self_verbosity msg st = VerbosityLogger_error self_verbosity [msg] st"

definition msgout_v :: "nat \<Rightarrow> string \<Rightarrow> state \<Rightarrow> state" where
  "msgout_v self_verbosity msg st = (if self_verbosity \<ge> 1 then emit (Print msg) st else st)"

section \<open>__init__.py: the queries\<close>

subsection \<open>\<open>error_recovery\<close>\<close>

text \<open>
  The closure \<open>error\<close> that \<open>error_recovery\<close> yields. It returns \<open>None\<close>; what changes is
  the flag \<open>must_exit\<close>, which the context manager tests when the \<open>with\<close> block is left.
\<close>

definition error_recovery_error ::
    "nat \<Rightarrow> bool \<Rightarrow> string \<Rightarrow> pyerr option \<Rightarrow> bool \<times> state \<Rightarrow> pyerr + bool \<times> state" where
  "error_recovery_error self_verbosity debug msg exception ms =
     (case VerbosityLogger_error self_verbosity [PStr msg] (snd ms) of
        Inl e \<Rightarrow> Inl e
      | Inr st1 \<Rightarrow>
          (case (case exception of
                   None \<Rightarrow> Inr st1
                 | Some x \<Rightarrow> Logger_exception self_verbosity (PExc x) st1) of
             Inl e \<Rightarrow> Inl e
           | Inr st2 \<Rightarrow> Inr (if debug then True else fst ms, st2)))"

subsection \<open>\<open>git_status_files\<close>\<close>

text \<open>
  The handler of \<open>except ValueError as e\<close>, the same in both branches: \<open>recover\<close> returns
  \<open>None\<close>, so the three lines are printed, and the delta becomes \<open>float("NaN")\<close>. The
  \<open>with\<close> block is then left, and \<open>error_recovery\<close> calls \<open>sys.exit(1)\<close> when
  \<open>must_exit\<close> is set.
\<close>

definition recover_nan ::
    "nat \<Rightarrow> bool \<Rightarrow> string \<Rightarrow> string \<Rightarrow> state \<Rightarrow> pyerr + delta \<times> state" where
  "recover_nan self_verbosity debug diff_output line st =
     (case error_recovery_error self_verbosity debug
             (''Error parsing diff stat line: '' @ repr line) (Some ValueError) (False, st) of
        Inl e \<Rightarrow> Inl e
      | Inr (must_exit, st1) \<Rightarrow>
          (let st2 = emit (Print ''END OF DIFF STATUS OUTPUT'')
                       (emit (Print diff_output)
                          (emit (Print ''Failing diff status output:'') st1))
           in if must_exit then Inl (SystemExit 1) else Inr (NaN, st2)))"

definition bin_delta :: "string list \<Rightarrow> int option" where
  \<comment> \<open>\<open>_, old_size, _, new_size, _ = ...; int(new_size) - int(old_size)\<close>; \<open>None\<close> is
      \<open>ValueError\<close>\<close>
  "bin_delta toks =
     (case toks of
        [t0, old_size, t2, new_size, t4] \<Rightarrow>
          (case py_int new_size of
             None \<Rightarrow> None
           | Some new \<Rightarrow>
               (case py_int old_size of None \<Rightarrow> None | Some old \<Rightarrow> Some (new - old)))
      | _ \<Rightarrow> None)"

text \<open>The body of the loop over the lines of \<open>git diff --stat\<close>.\<close>

definition diff_stat_line ::
    "nat \<Rightarrow> bool \<Rightarrow> string \<Rightarrow> string \<Rightarrow> (string \<rightharpoonup> delta) \<times> state
       \<Rightarrow> pyerr + (string \<rightharpoonup> delta) \<times> state" where
  "diff_stat_line self_verbosity debug diff_output line ds =
     (if CHR ''|'' \<notin> set line then Inr ds
      else
        (case split (CHR ''|'') line of
           [file_path, changes] \<Rightarrow>
             (case split (CHR '' '') (strip changes) of
                [] \<Rightarrow> Inl IndexError
              | line_status # _ \<Rightarrow>
                  (case (if startswith (lower line_status) ''bin''
                         then (case bin_delta (split (CHR '' '') (strip changes)) of
                                 Some lc \<Rightarrow> Inr (Count lc, snd ds)
                               | None \<Rightarrow>
                                   recover_nan self_verbosity debug diff_output line (snd ds))
                         else (case py_int line_status of
                                 Some lc \<Rightarrow> Inr (Count lc, snd ds)
                               | None \<Rightarrow>
                                   recover_nan self_verbosity debug diff_output line (snd ds))) of
                     Inl e \<Rightarrow> Inl e
                   | Inr (lc, st) \<Rightarrow> Inr ((fst ds)(strip file_path \<mapsto> lc), st)))
         | _ \<Rightarrow> Inr ds))"

fun diff_stat_loop ::
    "nat \<Rightarrow> bool \<Rightarrow> string \<Rightarrow> string list \<Rightarrow> (string \<rightharpoonup> delta) \<times> state
       \<Rightarrow> pyerr + (string \<rightharpoonup> delta) \<times> state" where
  "diff_stat_loop self_verbosity debug diff_output [] ds = Inr ds"
| "diff_stat_loop self_verbosity debug diff_output (line # lines) ds =
     (case diff_stat_line self_verbosity debug diff_output line ds of
        Inl e \<Rightarrow> Inl e
      | Inr ds1 \<Rightarrow> diff_stat_loop self_verbosity debug diff_output lines ds1)"

definition parse_diff_stat ::
    "nat \<Rightarrow> bool \<Rightarrow> completed \<Rightarrow> state \<Rightarrow> pyerr + (string \<rightharpoonup> delta) \<times> state" where
  "parse_diff_stat self_verbosity debug diff_stat_out st =
     (if returncode diff_stat_out = 0
      then diff_stat_loop self_verbosity debug (stdout diff_stat_out)
             (splitlines (stdout diff_stat_out)) (Map.empty, st)
      else Inr (Map.empty, st))"

definition dict_get :: "(string \<rightharpoonup> delta) \<Rightarrow> string \<Rightarrow> delta \<Rightarrow> delta" where
  "dict_get d k dflt = (case d k of None \<Rightarrow> dflt | Some v \<Rightarrow> v)"

text \<open>
  The final list comprehension over \<open>status_filenames\<close>. Unpacking
  \<open>status, file_path\<close> raises \<open>ValueError\<close> when a line has no blank to split at.
\<close>

fun status_records ::
    "bool \<Rightarrow> (string \<rightharpoonup> delta) \<Rightarrow> string list list \<Rightarrow> pyerr + status_record list" where
  "status_records show_untracked diff_stat [] = Inr []"
| "status_records show_untracked diff_stat (x # xs) =
     (case x of
        [status, file_path] \<Rightarrow>
          (case status_records show_untracked diff_stat xs of
             Inl e \<Rightarrow> Inl e
           | Inr rs \<Rightarrow>
               Inr (if show_untracked \<or> status \<noteq> ''??''
                    then ((if status = ''??'' then ''U'' else status), file_path,
                          dict_get diff_stat file_path (Count 0)) # rs
                    else rs))
      | _ \<Rightarrow> Inl ValueError)"

definition status_filenames :: "string \<Rightarrow> string list list" where
  "status_filenames out = map (\<lambda>line. splitn (CHR '' '') 1 (strip line)) (splitlines out)"

definition git_status_files ::
    "world \<Rightarrow> nat \<Rightarrow> string \<Rightarrow> bool \<Rightarrow> bool \<Rightarrow> state \<Rightarrow> pyerr + status_record list \<times> state" where
  "git_status_files w self_verbosity repo_path show_untracked debug st =
     (let st1 = msgout_v self_verbosity (''Checking git status and diff: '' @ repo_path) st;
          (result, st2) = run w repo_path [''git'', ''status'', ''--porcelain''] st1;
          (diff_stat_out, st3) = run w repo_path [''git'', ''diff'', ''--stat''] st2
      in case parse_diff_stat self_verbosity debug diff_stat_out st3 of
           Inl e \<Rightarrow> Inl e
         | Inr (diff_stat, st4) \<Rightarrow>
             if returncode result \<noteq> 0
             then Inr ([], emit (Print (''git status failed for '' @ repo_path)) st4)
             else (case status_records show_untracked diff_stat
                          (status_filenames (stdout result)) of
                     Inl e \<Rightarrow> Inl e
                   | Inr recs \<Rightarrow> Inr (recs, st4)))"

subsection \<open>\<open>git_diff\<close>\<close>

text \<open>
  \<open>file_diffs\<close> is a dictionary in insertion order: a list of pairs, a key assigned again
  keeping its place. \<open>file_diffs[current_file]\<close> is evaluated before the argument of
  \<open>append\<close>, so a missing key raises \<open>KeyError\<close> before \<open>[1]\<close> can raise \<open>IndexError\<close>.
\<close>

definition append_entry ::
    "char \<Rightarrow> string \<Rightarrow> file_diffs \<times> string option \<Rightarrow> pyerr + file_diffs \<times> string option" where
  "append_entry marker line fc =
     (case snd fc of
        None \<Rightarrow> Inl KeyError
      | Some current_file \<Rightarrow>
          (case map_of (fst fc) current_file of
             None \<Rightarrow> Inl KeyError
           | Some entries \<Rightarrow>
               (case splitn (CHR '' '') 1 line of
                  t0 # t1 # _ \<Rightarrow>
                    Inr (AList.update current_file (entries @ [(marker, strip t1)]) (fst fc),
                         Some current_file)
                | _ \<Rightarrow> Inl IndexError)))"

definition diff_line ::
    "string \<Rightarrow> file_diffs \<times> string option \<Rightarrow> pyerr + file_diffs \<times> string option" where
  "diff_line line fc =
     (if startswith line ''diff --git'' then
        (case splitn (CHR '' '') 3 line of
           t0 # t1 # current_file # _ \<Rightarrow>
             Inr (AList.update current_file [] (fst fc), Some current_file)
         | _ \<Rightarrow> Inl IndexError)
      else if startswith line ''@@'' then append_entry (CHR ''@'') line fc
      else if startswith line ''+ '' then append_entry (CHR ''+'') line fc
      else if startswith line ''- '' then append_entry (CHR ''-'') line fc
      else Inr fc)"

fun diff_loop ::
    "string list \<Rightarrow> file_diffs \<times> string option \<Rightarrow> pyerr + file_diffs \<times> string option" where
  "diff_loop [] fc = Inr fc"
| "diff_loop (line # lines) fc =
     (case diff_line line fc of
        Inl e \<Rightarrow> Inl e
      | Inr fc1 \<Rightarrow> diff_loop lines fc1)"

text \<open>On failure the source returns \<open>[]\<close>, here the empty dictionary: both are falsy.\<close>

definition git_diff :: "world \<Rightarrow> string \<Rightarrow> state \<Rightarrow> pyerr + file_diffs \<times> state" where
  "git_diff w repo_path st =
     (let (result, st1) = run w repo_path [''git'', ''diff''] st
      in if returncode result \<noteq> 0
         then Inr ([], emit (Print (''git diff failed for '' @ repo_path)) st1)
         else (case diff_loop (splitlines (stdout result)) ([], None) of
                 Inl e \<Rightarrow> Inl e
               | Inr fc \<Rightarrow> Inr (fst fc, st1)))"

subsection \<open>The remaining git calls\<close>

definition get_list_remotes :: "world \<Rightarrow> string \<Rightarrow> state \<Rightarrow> string list \<times> state" where
  "get_list_remotes w repo_path st =
     (let (result, st1) = run w repo_path [''git'', ''remote''] st
      in if returncode result \<noteq> 0
         then ([], emit (Print (''git remote failed for '' @ repo_path)) st1)
         else (splitlines (stdout result), st1))"

definition git_reset :: "world \<Rightarrow> string \<Rightarrow> state \<Rightarrow> bool \<times> state" where
  "git_reset w repo_path st =
     (let (result, st1) = run w repo_path [''git'', ''reset'', ''--hard'', ''HEAD''] st
      in if returncode result \<noteq> 0
         then (False, emit (Print (''git reset failed for '' @ repo_path)) st1)
         else (True, st1))"

definition git_pull :: "world \<Rightarrow> string \<Rightarrow> state \<Rightarrow> bool \<times> state" where
  "git_pull w repo_path st =
     (let (result, st1) = run w repo_path [''git'', ''pull''] st
      in if returncode result \<noteq> 0
         then (False, emit (Print (''git pull failed for '' @ repo_path)) st1)
         else (True, st1))"

definition git_push :: "world \<Rightarrow> string \<Rightarrow> state \<Rightarrow> bool \<times> state" where
  "git_push w repo_path st =
     (let (result, st1) = run w repo_path [''git'', ''push''] st
      in if returncode result \<noteq> 0
         then (False, emit (Print (''git push failed for '' @ repo_path)) st1)
         else (True, st1))"

subsection \<open>The memoised queries\<close>

definition git_status_files_cached ::
    "world \<Rightarrow> nat \<Rightarrow> string \<Rightarrow> bool \<Rightarrow> bool \<Rightarrow> state \<Rightarrow> pyerr + status_record list \<times> state" where
  "git_status_files_cached w self_verbosity repo_path show_untracked debug st =
     (let k = (repo_path, show_untracked, debug)
      in case map_of (status_cache st) k of
           Some v \<Rightarrow> Inr (v, st\<lparr>status_cache := lru_hit k v (status_cache st)\<rparr>)
         | None \<Rightarrow>
             (case git_status_files w self_verbosity repo_path show_untracked debug st of
                Inl e \<Rightarrow> Inl e
              | Inr (v, st1) \<Rightarrow>
                  Inr (v, st1\<lparr>status_cache := lru_miss k v (status_cache st1)\<rparr>)))"

definition git_diff_cached :: "world \<Rightarrow> string \<Rightarrow> state \<Rightarrow> pyerr + file_diffs \<times> state" where
  "git_diff_cached w repo_path st =
     (case map_of (diff_cache st) repo_path of
        Some v \<Rightarrow> Inr (v, st\<lparr>diff_cache := lru_hit repo_path v (diff_cache st)\<rparr>)
      | None \<Rightarrow>
          (case git_diff w repo_path st of
             Inl e \<Rightarrow> Inl e
           | Inr (v, st1) \<Rightarrow>
               Inr (v, st1\<lparr>diff_cache := lru_miss repo_path v (diff_cache st1)\<rparr>)))"

definition get_list_remotes_cached :: "world \<Rightarrow> string \<Rightarrow> state \<Rightarrow> string list \<times> state" where
  "get_list_remotes_cached w repo_path st =
     (case map_of (remotes_cache st) repo_path of
        Some v \<Rightarrow> (v, st\<lparr>remotes_cache := lru_hit repo_path v (remotes_cache st)\<rparr>)
      | None \<Rightarrow>
          (let (v, st1) = get_list_remotes w repo_path st
           in (v, st1\<lparr>remotes_cache := lru_miss repo_path v (remotes_cache st1)\<rparr>)))"

section \<open>__init__.py: \<open>main\<close>\<close>

text \<open>
  The namespace that \<open>parser.parse_args\<close> returns. \<open>ns_repo\<close> is \<open>None\<close> without \<open>-r\<close>;
  \<open>ns_action\<close> is \<open>None\<close> without a sub-command. The last four fields are those of the
  \<open>list\<close> sub-command, read by that action only.
\<close>

record namespace =
  ns_show_untracked :: bool
  ns_working_dir :: string
  ns_repo :: "string list option"
  ns_changed :: bool
  ns_next :: bool
  ns_verbosity :: nat
  ns_debug :: bool
  ns_action :: "string option"
  ns_status :: bool
  ns_show_remotes :: bool
  ns_non_repos :: bool
  ns_non_repos_only :: bool

definition init_state :: state where
  "init_state = \<lparr>events = [], status_cache = [], diff_cache = [], remotes_cache = []\<rparr>"

definition has_git :: "world \<Rightarrow> string \<Rightarrow> bool" where
  \<comment> \<open>\<open>".git" in os.listdir(p)\<close>, evaluated for directories only\<close>
  "has_git w p = (case listdir w p of None \<Rightarrow> False | Some es \<Rightarrow> ''.git'' \<in> set es)"

text \<open>Lines 349 to 361: which repositories the run is about.\<close>

definition select_repos :: "world \<Rightarrow> namespace \<Rightarrow> pyerr + string list" where
  "select_repos w ns =
     (case ns_repo ns of
        Some (r # rs) \<Rightarrow> Inr (r # rs)
      | _ \<Rightarrow>
          (case rack_config w ''repos'' of
             Some repos \<Rightarrow> Inr repos
           | None \<Rightarrow>
               (case listdir w (ns_working_dir ns) of
                  None \<Rightarrow> Inl OSError
                | Some entries \<Rightarrow>
                    Inr (filter (\<lambda>repo. isdir w (path_join (ns_working_dir ns) repo)
                                   \<and> has_git w (path_join (ns_working_dir ns) repo))
                           entries))))"

text \<open>Lines 363 to 370: \<open>--changed\<close> keeps the repositories whose status list is not empty.\<close>

fun changed_repos ::
    "world \<Rightarrow> namespace \<Rightarrow> string list \<Rightarrow> state \<Rightarrow> pyerr + string list \<times> state" where
  "changed_repos w ns [] st = Inr ([], st)"
| "changed_repos w ns (repo # repos) st =
     (case git_status_files_cached w (ns_verbosity ns) (path_join (ns_working_dir ns) repo)
             (ns_show_untracked ns) (ns_debug ns) st of
        Inl e \<Rightarrow> Inl e
      | Inr (files, st1) \<Rightarrow>
          (case changed_repos w ns repos st1 of
             Inl e \<Rightarrow> Inl e
           | Inr (rs, st2) \<Rightarrow> Inr (if files \<noteq> [] then repo # rs else rs, st2)))"

text \<open>
  Lines 372 to 378: \<open>--next\<close> keeps the first repository with changes, looked up under
  \<open>$HOME/projects\<close>; \<open>None\<close> says that the loop ended without \<open>break\<close>.
\<close>

fun next_repo ::
    "world \<Rightarrow> namespace \<Rightarrow> string list \<Rightarrow> state \<Rightarrow> pyerr + string list option \<times> state" where
  "next_repo w ns [] st = Inr (None, st)"
| "next_repo w ns (repo # repos) st =
     (case home w of
        None \<Rightarrow> Inl KeyError
      | Some h \<Rightarrow>
          (case git_status_files_cached w (ns_verbosity ns)
                  (path_join (path_join h ''projects'') repo)
                  (ns_show_untracked ns) (ns_debug ns) st of
             Inl e \<Rightarrow> Inl e
           | Inr (files, st1) \<Rightarrow>
               if files \<noteq> [] then Inr (Some [repo], st1) else next_repo w ns repos st1))"

subsection \<open>The \<open>list\<close> action\<close>

fun str_join :: "string \<Rightarrow> string list \<Rightarrow> string" where
  "str_join sep [] = []"
| "str_join sep [x] = x"
| "str_join sep (x # y # ys) = x @ sep @ str_join sep (y # ys)"

definition non_repo_dirs :: "world \<Rightarrow> namespace \<Rightarrow> pyerr + string list" where
  "non_repo_dirs w ns =
     (case listdir w (ns_working_dir ns) of
        None \<Rightarrow> Inl OSError
      | Some entries \<Rightarrow>
          Inr (filter (\<lambda>repo. isdir w (path_join (ns_working_dir ns) repo)
                         \<and> \<not> has_git w (path_join (ns_working_dir ns) repo))
                 entries))"

text \<open>The rows of the table: one per directory, \<open>i\<close> its index.\<close>

fun list_rows ::
    "world \<Rightarrow> namespace \<Rightarrow> nat \<Rightarrow> string list \<Rightarrow> state
       \<Rightarrow> pyerr + (string list \<times> string) list \<times> state" where
  "list_rows w ns i [] st = Inr ([], st)"
| "list_rows w ns i (directory # directories) st =
     (let directory_path = path_join (ns_working_dir ns) directory;
          (remotes, st1) =
            (if ns_show_remotes ns
             then (let (rs, st1) = get_list_remotes_cached w directory_path st
                   in ([str_join [CHR 0x0A]
                          (map (\<lambda>r. if r = ''origin'' then ''[bright_black]'' @ r @ ''[/]'' else r)
                             rs)],
                       st1))
             else ([], st))
      in case (if ns_status ns
               then (case git_status_files_cached w (ns_verbosity ns) directory_path
                            (ns_show_untracked ns) (ns_debug ns) st1 of
                       Inl e \<Rightarrow> Inl e
                     | Inr (files, st2) \<Rightarrow> Inr (str_nat (length files), st2))
               else Inr ([], st1)) of
           Inl e \<Rightarrow> Inl e
         | Inr (changes, st2) \<Rightarrow>
             (case list_rows w ns (Suc i) directories st2 of
                Inl e \<Rightarrow> Inl e
              | Inr (rows, st3) \<Rightarrow>
                  Inr (([changes, directory] @ remotes,
                        if i mod 2 = 0 then ''row-even'' else ''row-odd'') # rows, st3)))"

definition action_list ::
    "world \<Rightarrow> namespace \<Rightarrow> string list \<Rightarrow> state \<Rightarrow> pyerr + int option \<times> state" where
  "action_list w ns repos st =
     (if ns_non_repos_only ns \<and> \<not> ns_non_repos ns then
        (case VerbosityLogger_error (ns_verbosity ns)
                [PStr ''Cannot specify -O/--only-non-repos without -N/--non-repos''] st of
           Inl e \<Rightarrow> Inl e
         | Inr st1 \<Rightarrow> Inr (Some 1, st1))
      else if ns_non_repos_only ns \<and> ns_status ns then
        (case VerbosityLogger_error (ns_verbosity ns)
                [PStr ''Cannot specify -O/--only-non-repos with -s/--status''] st of
           Inl e \<Rightarrow> Inl e
         | Inr st1 \<Rightarrow> Inr (Some 1, st1))
      else
        (case (if ns_non_repos ns
               then (case non_repo_dirs w ns of
                       Inl e \<Rightarrow> Inl e
                     | Inr non_repos \<Rightarrow>
                         Inr (sort ((if \<not> ns_non_repos_only ns then repos else []) @ non_repos)))
               else Inr (if \<not> ns_non_repos_only ns then repos else [])) of
           Inl e \<Rightarrow> Inl e
         | Inr directories \<Rightarrow>
             (case list_rows w ns 0 directories st of
                Inl e \<Rightarrow> Inl e
              | Inr (rows, st1) \<Rightarrow> Inr (None, emit (PrintTable rows) st1))))"

subsection \<open>The \<open>status\<close> action\<close>

definition diff_str :: "delta \<Rightarrow> string" where
  \<comment> \<open>\<open>f"..{diff:<4}" if diff else "    "\<close>: zero is falsy, NaN is not\<close>
  "diff_str d =
     (case d of
        Count n \<Rightarrow> if n = 0 then ''    '' else [CHR 0xC2, CHR 0xB1] @ ljust 4 (str_int n)
      | NaN \<Rightarrow> [CHR 0xC2, CHR 0xB1] @ ljust 4 ''nan'')"

definition print_status_line :: "status_record \<Rightarrow> state \<Rightarrow> state" where
  "print_status_line r st =
     (case r of (status, file_path, d) \<Rightarrow>
        emit (Print (''  '' @ status @ '' '' @ diff_str d @ [CHR 0x09] @ file_path)) st)"

fun action_status ::
    "world \<Rightarrow> namespace \<Rightarrow> string list \<Rightarrow> state \<Rightarrow> pyerr + int option \<times> state" where
  "action_status w ns [] st = Inr (None, st)"
| "action_status w ns (repo # repos) st =
     (case git_status_files_cached w (ns_verbosity ns) (path_join (ns_working_dir ns) repo)
             (ns_show_untracked ns) (ns_debug ns) st of
        Inl e \<Rightarrow> Inl e
      | Inr (files, st1) \<Rightarrow>
          if files = [] then action_status w ns repos st1
          else action_status w ns repos
                 (fold print_status_line files
                    (emit (Print (''Status for Repo: '' @ repo)) st1)))"

subsection \<open>The \<open>diff\<close> action\<close>

definition print_diff_entry :: "char \<times> string \<Rightarrow> state \<Rightarrow> state" where
  "print_diff_entry cl st =
     (case cl of (code, line) \<Rightarrow>
        if code = CHR ''@'' then emit (Print (''  '' @ line)) st
        else emit (Print (''  '' @ [code] @ [CHR 0x09] @ line)) st)"

definition print_file_diff :: "string \<times> (char \<times> string) list \<Rightarrow> state \<Rightarrow> state" where
  "print_file_diff fd st =
     (case fd of (file_path, d) \<Rightarrow>
        fold print_diff_entry d (emit (Print (''Diff for '' @ repr file_path)) st))"

text \<open>\<open>n\<close> is \<open>len(repos)\<close>, the length of the whole list the loop runs over.\<close>

fun action_diff ::
    "world \<Rightarrow> namespace \<Rightarrow> nat \<Rightarrow> string list \<Rightarrow> state \<Rightarrow> pyerr + int option \<times> state" where
  "action_diff w ns n [] st = Inr (None, st)"
| "action_diff w ns n (repo # repos) st =
     (case git_diff_cached w (path_join (ns_working_dir ns) repo) st of
        Inl e \<Rightarrow> Inl e
      | Inr (file_diffs, st1) \<Rightarrow>
          if file_diffs = [] then
            action_diff w ns n repos
              (if n = 1 then emit (Print (''Repository '' @ repo @ '' has no changes.'')) st1
               else st1)
          else action_diff w ns n repos
                 (fold print_file_diff file_diffs
                    (emit (Print (''Status for Repo: '' @ repo)) st1)))"

subsection \<open>The \<open>reset\<close>, \<open>pull\<close> and \<open>push\<close> actions\<close>

fun action_reset :: "world \<Rightarrow> namespace \<Rightarrow> string list \<Rightarrow> state \<Rightarrow> state" where
  "action_reset w ns [] st = st"
| "action_reset w ns (repo # repos) st =
     action_reset w ns repos
       (snd (git_reset w (path_join (ns_working_dir ns) repo)
               (emit (Print (''Resetting Repo: '' @ repo)) st)))"

fun action_pull :: "world \<Rightarrow> namespace \<Rightarrow> string list \<Rightarrow> state \<Rightarrow> state" where
  "action_pull w ns [] st = st"
| "action_pull w ns (repo # repos) st =
     action_pull w ns repos
       (snd (git_pull w (path_join (ns_working_dir ns) repo)
               (emit (Print (''Pulling Repo: '' @ repo)) st)))"

fun action_push :: "world \<Rightarrow> namespace \<Rightarrow> string list \<Rightarrow> state \<Rightarrow> state" where
  "action_push w ns [] st = st"
| "action_push w ns (repo # repos) st =
     action_push w ns repos
       (snd (git_push w (path_join (ns_working_dir ns) repo)
               (emit (Print (''Pushing Repo: '' @ repo)) st)))"

subsection \<open>\<open>main\<close>\<close>

definition dispatch ::
    "world \<Rightarrow> namespace \<Rightarrow> string list \<Rightarrow> state \<Rightarrow> pyerr + int option \<times> state" where
  "dispatch w ns repos st =
     (if ns_action ns = Some ''list'' then action_list w ns repos st
      else if ns_action ns = Some ''status'' then action_status w ns repos st
      else if ns_action ns = Some ''diff'' then action_diff w ns (length repos) repos st
      else if ns_action ns = Some ''reset'' then Inr (None, action_reset w ns repos st)
      else if ns_action ns = Some ''pull'' then Inr (None, action_pull w ns repos st)
      else if ns_action ns = Some ''push'' then Inr (None, action_push w ns repos st)
      else Inl NotImplementedError)"

text \<open>
  The value \<open>main\<close> returns (\<open>None\<close> at the end of the function, \<open>1\<close> after a refused
  combination of flags) with the state it leaves, or the exception that leaves it.
  \<open>os.chdir(ns.working_dir)\<close> raises unless the working directory is one.
\<close>

definition main :: "world \<Rightarrow> namespace \<Rightarrow> pyerr + int option \<times> state" where
  "main w ns =
     (if \<not> isdir w (ns_working_dir ns) then Inl OSError
      else if ns_next ns \<and> (case ns_repo ns of None \<Rightarrow> False | Some rs \<Rightarrow> rs \<noteq> []) then
        Inr (Some 1, emit (Print ''Cannot specify both --next and --repo'') init_state)
      else
        (case select_repos w ns of
           Inl e \<Rightarrow> Inl e
         | Inr repos \<Rightarrow>
             (case (if ns_changed ns then changed_repos w ns repos init_state
                    else Inr (repos, init_state)) of
                Inl e \<Rightarrow> Inl e
              | Inr (repos1, st1) \<Rightarrow>
                  (case (if ns_next ns
                         then (case next_repo w ns repos1 st1 of
                                 Inl e \<Rightarrow> Inl e
                               | Inr (found, st2) \<Rightarrow>
                                   Inr (case found of None \<Rightarrow> repos1 | Some r \<Rightarrow> r, st2))
                         else Inr (repos1, st1)) of
                     Inl e \<Rightarrow> Inl e
                   | Inr (repos2, st2) \<Rightarrow> dispatch w ns repos2 st2))))"

section \<open>Sample inputs\<close>

text \<open>
  A git whose answers are looked up by command line (any other command fails with exit
  status 128), in a working directory \<open>/w\<close> that holds the repository \<open>r\<close> and the plain
  directory \<open>notes\<close>.
\<close>

definition canned :: "(string list \<times> completed) list \<Rightarrow> string \<Rightarrow> string list \<Rightarrow> completed" where
  "canned tab cwd argv =
     (case map_of tab argv of None \<Rightarrow> \<lparr>returncode = 128, stdout = []\<rparr> | Some c \<Rightarrow> c)"

definition lines_text :: "string list \<Rightarrow> string" where
  \<comment> \<open>the lines of an output, each ended by a line feed\<close>
  "lines_text ls = concat (map (\<lambda>l. l @ [CHR 0x0A]) ls)"

definition sample_world :: "(string list \<times> completed) list \<Rightarrow> world" where
  "sample_world tab =
     \<lparr>git = canned tab,
      listdir = [''/w'' \<mapsto> [''r'', ''notes''], ''/w/r'' \<mapsto> [''.git''], ''/w/notes'' \<mapsto> []],
      rack_config = Map.empty, home = None\<rparr>"

definition sample_ns :: "string \<Rightarrow> namespace" where
  "sample_ns a =
     \<lparr>ns_show_untracked = False, ns_working_dir = ''/w'', ns_repo = None, ns_changed = False,
      ns_next = False, ns_verbosity = 0, ns_debug = False, ns_action = Some a,
      ns_status = False, ns_show_remotes = False, ns_non_repos = False,
      ns_non_repos_only = False\<rparr>"

section \<open>Properties\<close>

subsection \<open>Prefixes\<close>

lemma startswith_Nil: "startswith s []"
  by (simp add: startswith_def)

lemma startswith_Cons: "startswith (x # xs) (p # ps) = (x = p \<and> startswith xs ps)"
  by (simp add: startswith_def)

lemma startswith_Nil_Cons: "\<not> startswith [] (p # ps)"
  by (simp add: startswith_def)

lemmas startswith_simps = startswith_Nil startswith_Cons startswith_Nil_Cons

subsection \<open>The logger and the handler that calls it\<close>

lemma log_method_single: "log_method lvl v [a] st = Inl TypeError"
  by (simp add: log_method_def)

lemma error_recovery_error_raises:
  "error_recovery_error v debug msg exc ms = Inl TypeError"
  by (simp add: error_recovery_error_def VerbosityLogger_error_def log_method_single)

lemma recover_nan_raises: "recover_nan v debug out line st = Inl TypeError"
  by (simp add: recover_nan_def error_recovery_error_raises)

text \<open>
  C9. A call of \<open>VerbosityLogger.debug\<close>, \<open>info\<close>, \<open>warning\<close>, \<open>error\<close> or \<open>critical\<close> with
  one positional argument raises \<open>TypeError\<close>: the argument is bound to \<open>verbosity\<close> and
  \<open>msg\<close> is missing. The closure \<open>error\<close> of \<open>error_recovery\<close> makes such a call, and so
  does each of the two flag checks of the \<open>list\<close> action, which therefore raise whenever
  they find the combination they were written to refuse.
\<close>

theorem single_argument_log_call_raises:
  "VerbosityLogger_debug v [a] st = Inl TypeError
   \<and> VerbosityLogger_info v [a] st = Inl TypeError
   \<and> VerbosityLogger_warning v [a] st = Inl TypeError
   \<and> VerbosityLogger_error v [a] st = Inl TypeError
   \<and> VerbosityLogger_critical v [a] st = Inl TypeError
   \<and> error_recovery_error v debug msg exc (must_exit, st) = Inl TypeError
   \<and> (ns_non_repos_only ns \<and> \<not> ns_non_repos ns \<longrightarrow> action_list w ns repos st = Inl TypeError)
   \<and> (ns_non_repos_only ns \<and> ns_status ns \<longrightarrow> action_list w ns repos st = Inl TypeError)"
  by (simp add: VerbosityLogger_debug_def VerbosityLogger_info_def VerbosityLogger_warning_def
        VerbosityLogger_error_def VerbosityLogger_critical_def log_method_single
        error_recovery_error_def action_list_def)

theorem single_argument_log_call_raises_witness:
  "ns_non_repos_only ((sample_ns ''list'')\<lparr>ns_non_repos_only := True, ns_status := True\<rparr>)
   \<and> \<not> ns_non_repos ((sample_ns ''list'')\<lparr>ns_non_repos_only := True, ns_status := True\<rparr>)
   \<and> ns_status ((sample_ns ''list'')\<lparr>ns_non_repos_only := True, ns_status := True\<rparr>)
   \<and> action_list (sample_world [])
        ((sample_ns ''list'')\<lparr>ns_non_repos_only := True, ns_status := True\<rparr>)
        [''r''] init_state = Inl TypeError"
  using single_argument_log_call_raises
          [where ns = "(sample_ns ''list'')\<lparr>ns_non_repos_only := True, ns_status := True\<rparr>"
             and w = "sample_world []" and repos = "[''r'']" and st = init_state]
  by (simp add: sample_ns_def)

subsection \<open>The diff-stat pass leaves the state alone when it succeeds\<close>

lemma diff_stat_line_state:
  "diff_stat_line v dbg out line (m, st) = Inr (m', st')
     \<Longrightarrow> st' = st \<and> diff_stat_line v dbg out line (m, s) = Inr (m', s)"
  by (auto simp: diff_stat_line_def recover_nan_raises split: if_splits list.splits option.splits)

lemma diff_stat_loop_state:
  "diff_stat_loop v dbg out lines (m, st) = Inr (m', st')
     \<Longrightarrow> st' = st \<and> diff_stat_loop v dbg out lines (m, s) = Inr (m', s)"
proof (induction lines arbitrary: m)
  case Nil
  then show ?case by simp
next
  case (Cons line lines)
  from Cons.prems obtain m1 st1 where
    l: "diff_stat_line v dbg out line (m, st) = Inr (m1, st1)"
    and r: "diff_stat_loop v dbg out lines (m1, st1) = Inr (m', st')"
    by (auto split: sum.splits)
  from diff_stat_line_state[OF l] have "st1 = st"
    and "diff_stat_line v dbg out line (m, s) = Inr (m1, s)" by simp_all
  with r Cons.IH[of m1] show ?case by simp
qed

lemma parse_diff_stat_state:
  "parse_diff_stat v dbg c st = Inr (m, st')
     \<Longrightarrow> st' = st \<and> parse_diff_stat v dbg c s = Inr (m, s)"
  by (auto simp: parse_diff_stat_def dest: diff_stat_loop_state split: if_splits)

subsection \<open>Status records\<close>

lemma status_records_delta:
  "status_records su diff_stat sfs = Inr recs \<Longrightarrow> (status, file_path, d) \<in> set recs
     \<Longrightarrow> d = dict_get diff_stat file_path (Count 0)"
proof (induction sfs arbitrary: recs)
  case Nil
  then show ?case by simp
next
  case (Cons x xs)
  then show ?case
    by (auto split: list.splits sum.splits if_splits)
qed

text \<open>
  C10. When \<open>git_status_files\<close> returns, every record whose path is not a key of the
  mapping parsed from \<open>git diff --stat\<close> carries the integer 0 as its delta, not the NaN
  sentinel. (The mapping does not depend on the state the pass is started in.)
\<close>

theorem missing_stat_entry_gives_zero:
  assumes "parse_diff_stat v dbg (git w repo_path [''git'', ''diff'', ''--stat'']) s
             = Inr (diff_stat, s')"
    and "git_status_files w v repo_path su dbg st = Inr (recs, st')"
    and "(status, file_path, d) \<in> set recs"
    and "diff_stat file_path = None"
  shows "d = Count 0"
proof -
  let ?st3 = "emit (Ran repo_path [''git'', ''diff'', ''--stat''])
                (emit (Ran repo_path [''git'', ''status'', ''--porcelain''])
                   (msgout_v v (''Checking git status and diff: '' @ repo_path) st))"
  from parse_diff_stat_state[OF assms(1)]
  have p: "parse_diff_stat v dbg (git w repo_path [''git'', ''diff'', ''--stat'']) ?st3
             = Inr (diff_stat, ?st3)"
    by simp
  from assms(2) p have
    "returncode (git w repo_path [''git'', ''status'', ''--porcelain'']) \<noteq> 0 \<and> recs = []
     \<or> status_records su diff_stat
          (status_filenames (stdout (git w repo_path [''git'', ''status'', ''--porcelain''])))
        = Inr recs"
    by (auto simp: git_status_files_def run_def split: if_splits sum.splits)
  with assms(3) have "d = dict_get diff_stat file_path (Count 0)"
    by (auto dest: status_records_delta)
  with assms(4) show ?thesis by (simp add: dict_get_def)
qed

theorem missing_stat_entry_gives_zero_witness:
  "parse_diff_stat 0 False
     (git (sample_world
             [([''git'', ''status'', ''--porcelain''],
               \<lparr>returncode = 0, stdout = ''?? new.txt'' @ [CHR 0x0A] @ '' M a.py''\<rparr>),
              ([''git'', ''diff'', ''--stat''],
               \<lparr>returncode = 0, stdout = '' a.py | 3 ++-''\<rparr>)])
          ''/w/r'' [''git'', ''diff'', ''--stat''])
     init_state = Inr ([''a.py'' \<mapsto> Count 3], init_state)
   \<and> git_status_files
        (sample_world
           [([''git'', ''status'', ''--porcelain''],
             \<lparr>returncode = 0, stdout = ''?? new.txt'' @ [CHR 0x0A] @ '' M a.py''\<rparr>),
            ([''git'', ''diff'', ''--stat''],
             \<lparr>returncode = 0, stdout = '' a.py | 3 ++-''\<rparr>)])
        0 ''/w/r'' True False init_state
      = Inr ([(''U'', ''new.txt'', Count 0), (''M'', ''a.py'', Count 3)],
             \<lparr>events = [Ran ''/w/r'' [''git'', ''status'', ''--porcelain''],
                        Ran ''/w/r'' [''git'', ''diff'', ''--stat'']],
                status_cache = [], diff_cache = [], remotes_cache = []\<rparr>)
   \<and> (''U'', ''new.txt'', Count 0) \<in> set [(''U'', ''new.txt'', Count 0), (''M'', ''a.py'', Count 3)]
   \<and> [''a.py'' \<mapsto> Count 3] ''new.txt'' = None"
proof -
  let ?w = "sample_world
             [([''git'', ''status'', ''--porcelain''],
               \<lparr>returncode = 0, stdout = ''?? new.txt'' @ [CHR 0x0A] @ '' M a.py''\<rparr>),
              ([''git'', ''diff'', ''--stat''],
               \<lparr>returncode = 0, stdout = '' a.py | 3 ++-''\<rparr>)]"
  have g: "git ?w ''/w/r'' [''git'', ''diff'', ''--stat'']
             = \<lparr>returncode = 0, stdout = '' a.py | 3 ++-''\<rparr>"
    by (simp add: sample_world_def canned_def)
  have a: "splitlines '' a.py | 3 ++-'' = ['' a.py | 3 ++-'']" by code_simp
  have b: "split (CHR ''|'') '' a.py | 3 ++-'' = ['' a.py '', '' 3 ++-'']" by code_simp
  have c: "split (CHR '' '') (strip '' 3 ++-'') = [''3'', ''++-'']" by code_simp
  have d: "\<not> startswith (lower ''3'') ''bin''" by code_simp
  have e: "py_int ''3'' = Some 3" by code_simp
  have f: "strip '' a.py '' = ''a.py''" by code_simp
  have h1: "parse_diff_stat 0 False (git ?w ''/w/r'' [''git'', ''diff'', ''--stat'']) init_state
              = Inr ([''a.py'' \<mapsto> Count 3], init_state)"
    unfolding g by (simp add: parse_diff_stat_def diff_stat_line_def a b c d e f)
  have h2: "git_status_files ?w 0 ''/w/r'' True False init_state
      = Inr ([(''U'', ''new.txt'', Count 0), (''M'', ''a.py'', Count 3)],
             \<lparr>events = [Ran ''/w/r'' [''git'', ''status'', ''--porcelain''],
                        Ran ''/w/r'' [''git'', ''diff'', ''--stat'']],
                status_cache = [], diff_cache = [], remotes_cache = []\<rparr>)"
    by code_simp
  have h3: "(''U'', ''new.txt'', Count 0) \<in> set [(''U'', ''new.txt'', Count 0), (''M'', ''a.py'', Count 3)]"
    by simp
  have h4: "[''a.py'' \<mapsto> Count 3] ''new.txt'' = None" by simp
  from missing_stat_entry_gives_zero[OF h1 h2 h3 h4] h1 h2 h3 h4 show ?thesis by blast
qed

subsection \<open>Which repositories a run is about\<close>



subsection \<open>The diff parser before the first file header\<close>

lemma marker_not_header:
  "startswith line ''@@'' \<or> startswith line ''+ '' \<or> startswith line ''- ''
     \<Longrightarrow> \<not> startswith line ''diff --git''"
  by (cases line) (auto simp: startswith_simps)

lemma diff_line_no_file:
  "\<not> startswith l ''diff --git''
     \<Longrightarrow> diff_line l (fd, None) = Inr (fd, None) \<or> diff_line l (fd, None) = Inl KeyError"
  by (simp add: diff_line_def append_entry_def)

lemma diff_line_marker_no_file:
  "startswith line ''@@'' \<or> startswith line ''+ '' \<or> startswith line ''- ''
     \<Longrightarrow> diff_line line (fd, None) = Inl KeyError"
  using marker_not_header[of line] by (auto simp: diff_line_def append_entry_def)

lemma diff_loop_marker_before_header:
  assumes "\<forall>l \<in> set pre. \<not> startswith l ''diff --git''"
    and "startswith line ''@@'' \<or> startswith line ''+ '' \<or> startswith line ''- ''"
  shows "diff_loop (pre @ line # post) (fd, None) = Inl KeyError"
  using assms(1)
proof (induction pre)
  case Nil
  then show ?case by (simp add: diff_line_marker_no_file[OF assms(2)])
next
  case (Cons l pre)
  then have "\<not> startswith l ''diff --git''" by simp
  from diff_line_no_file[OF this, of fd] Cons show ?case by auto
qed

text \<open>
  C8. When \<open>git diff\<close> succeeds and its output has a line starting with \<open>@@\<close>, \<open>+ \<close> or
  \<open>- \<close> that no line starting with \<open>diff --git\<close> precedes, \<open>git_diff\<close> raises \<open>KeyError\<close>:
  \<open>current_file\<close> is still \<open>None\<close>, which is no key of \<open>file_diffs\<close>. Nothing catches it:
  the memoised call, on a path it has not seen, raises it too.
\<close>

theorem marker_before_header_raises_KeyError:
  assumes "returncode (git w repo_path [''git'', ''diff'']) = 0"
    and "splitlines (stdout (git w repo_path [''git'', ''diff''])) = pre @ line # post"
    and "\<forall>l \<in> set pre. \<not> startswith l ''diff --git''"
    and "startswith line ''@@'' \<or> startswith line ''+ '' \<or> startswith line ''- ''"
  shows "git_diff w repo_path st = Inl KeyError
         \<and> (map_of (diff_cache st) repo_path = None
              \<longrightarrow> git_diff_cached w repo_path st = Inl KeyError)"
  using assms(1,2) diff_loop_marker_before_header[OF assms(3,4), of post "[]"]
  by (simp add: git_diff_def git_diff_cached_def run_def)

theorem marker_before_header_raises_KeyError_witness:
  "returncode (git (sample_world [([''git'', ''diff''],
                      \<lparr>returncode = 0,
                         stdout = ''index 21d76d2..44df869'' @ [CHR 0x0A] @ ''@@ -1 +1 @@''
                                  @ [CHR 0x0A] @ ''+ x''\<rparr>)])
                 ''/w/r'' [''git'', ''diff'']) = 0
   \<and> splitlines (stdout (git (sample_world [([''git'', ''diff''],
                      \<lparr>returncode = 0,
                         stdout = ''index 21d76d2..44df869'' @ [CHR 0x0A] @ ''@@ -1 +1 @@''
                                  @ [CHR 0x0A] @ ''+ x''\<rparr>)])
                 ''/w/r'' [''git'', ''diff'']))
       = [''index 21d76d2..44df869''] @ ''@@ -1 +1 @@'' # [''+ x'']
   \<and> \<not> startswith ''index 21d76d2..44df869'' ''diff --git''
   \<and> startswith ''@@ -1 +1 @@'' ''@@''
   \<and> map_of (diff_cache init_state) ''/w/r'' = None
   \<and> git_diff (sample_world [([''git'', ''diff''],
                      \<lparr>returncode = 0,
                         stdout = ''index 21d76d2..44df869'' @ [CHR 0x0A] @ ''@@ -1 +1 @@''
                                  @ [CHR 0x0A] @ ''+ x''\<rparr>)])
        ''/w/r'' init_state = Inl KeyError
   \<and> git_diff_cached (sample_world [([''git'', ''diff''],
                      \<lparr>returncode = 0,
                         stdout = ''index 21d76d2..44df869'' @ [CHR 0x0A] @ ''@@ -1 +1 @@''
                                  @ [CHR 0x0A] @ ''+ x''\<rparr>)])
        ''/w/r'' init_state = Inl KeyError"
proof -
  let ?w = "sample_world [([''git'', ''diff''],
                      \<lparr>returncode = 0,
                         stdout = ''index 21d76d2..44df869'' @ [CHR 0x0A] @ ''@@ -1 +1 @@''
                                  @ [CHR 0x0A] @ ''+ x''\<rparr>)]"
  have h1: "returncode (git ?w ''/w/r'' [''git'', ''diff'']) = 0"
    by code_simp
  have h2: "splitlines (stdout (git ?w ''/w/r'' [''git'', ''diff'']))
              = [''index 21d76d2..44df869''] @ ''@@ -1 +1 @@'' # [''+ x'']"
    by code_simp
  have h3: "\<forall>l \<in> set [''index 21d76d2..44df869'']. \<not> startswith l ''diff --git''"
    by (simp add: startswith_simps)
  have h4: "startswith ''@@ -1 +1 @@'' ''@@'' \<or> startswith ''@@ -1 +1 @@'' ''+ ''
              \<or> startswith ''@@ -1 +1 @@'' ''- ''"
    by (simp add: startswith_simps)
  have h5: "map_of (diff_cache init_state) ''/w/r'' = None"
    by (simp add: init_state_def)
  from marker_before_header_raises_KeyError[OF h1 h2 h3 h4, of init_state] h1 h2 h3 h5
  show ?thesis by (simp add: startswith_simps)
qed

subsection \<open>Inputs on which the code departs from its description\<close>

text \<open>
  C1. A staged modification is reported by \<open>git status --porcelain\<close> as \<open>M\<close>, two blanks
  and the path. \<open>line.strip().split(" ", 1)\<close> splits at the first blank only, so the
  path of the record starts with a blank; it is then no key of the diff-stat mapping, whose
  keys are stripped, and the delta 2 of the file is lost. The line \<open>" M  setup.py"\<close> of the
  description is split in the same way.
\<close>

theorem staged_path_keeps_leading_blank:
  "map_sum id fst
     (git_status_files
        (sample_world
           [([''git'', ''status'', ''--porcelain''],
             \<lparr>returncode = 0, stdout = lines_text [''M  setup.py'']\<rparr>),
            ([''git'', ''diff'', ''--stat''],
             \<lparr>returncode = 0, stdout = lines_text ['' setup.py | 2 +-'']\<rparr>)])
        0 ''/w/r'' False False init_state)
     = Inr [(''M'', '' setup.py'', Count 0)]
   \<and> status_records False Map.empty (status_filenames '' M  setup.py'')
     = Inr [(''M'', '' setup.py'', Count 0)]"
  by code_simp

lemma malformed_change_field_raises:
  assumes "CHR ''|'' \<in> set line" and "split (CHR ''|'') line = [file_path, changes]"
    and "split (CHR '' '') (strip changes) = line_status # rest"
    and "if startswith (lower line_status) ''bin''
         then bin_delta (line_status # rest) = None
         else py_int line_status = None"
  shows "diff_stat_line v dbg out line ds = Inl TypeError"
  using assms by (simp add: diff_stat_line_def recover_nan_raises split: if_splits)

text \<open>
  C3. For a binary file whose size did not change \<open>git diff --stat\<close> prints \<open>Bin\<close> alone.
  The change field is then neither of the binary-size form nor an integer, the handler
  calls \<open>recover\<close>, and the call of \<open>logger.error\<close> in it raises \<open>TypeError\<close>:
  \<open>git_status_files\<close> is left by the exception, with debug mode off, and the line that
  follows is not parsed.
\<close>

theorem malformed_stat_line_raises_TypeError:
  "git_status_files
     (sample_world
        [([''git'', ''status'', ''--porcelain''],
          \<lparr>returncode = 0, stdout = lines_text ['' M logo.png'', '' M setup.py'']\<rparr>),
         ([''git'', ''diff'', ''--stat''],
          \<lparr>returncode = 0, stdout = lines_text ['' logo.png | Bin'', '' setup.py | 2 +-'']\<rparr>)])
     0 ''/w/r'' False False init_state
   = Inl TypeError"
  by code_simp

text \<open>
  C5. \<open>rack list -O\<close> and \<open>rack list -N -O -s\<close> are left by a \<open>TypeError\<close>, not by the
  return value 1: the check finds the combination and calls \<open>logger.error\<close> with the
  message alone. \<open>rack -n -r r list\<close> does return 1, after one line of output and no git
  command.
\<close>

theorem refused_list_flags_raise_TypeError:
  "main (sample_world []) ((sample_ns ''list'')\<lparr>ns_non_repos_only := True\<rparr>) = Inl TypeError
   \<and> main (sample_world [])
       ((sample_ns ''list'')\<lparr>ns_non_repos := True, ns_non_repos_only := True,
                              ns_status := True\<rparr>) = Inl TypeError
   \<and> map_sum id (\<lambda>r. (fst r, events (snd r)))
       (main (sample_world []) ((sample_ns ''list'')\<lparr>ns_next := True, ns_repo := Some [''r'']\<rparr>))
     = Inr (Some 1, [Print ''Cannot specify both --next and --repo''])"
  by code_simp

subsection \<open>Splitting and stripping\<close>





subsection \<open>What \<open>int()\<close> accepts\<close>





subsection \<open>Binary size changes\<close>




subsection \<open>Added and removed lines of a diff\<close>

text \<open>
  C2. The docstring of \<open>git_diff\<close> promises the changed lines of each file, \<open>+\<close> or \<open>-\<close>.
  The added line \<open>+import os\<close> starts with \<open>+\<close> but not with \<open>+\<close> and a blank, which is
  what the code tests for: it is not recorded under \<open>+\<close>. The hunk header before it is
  recorded under \<open>@\<close>.
\<close>

theorem added_line_without_blank_not_recorded:
  "map_sum id fst
     (git_diff (sample_world [([''git'', ''diff''],
        \<lparr>returncode = 0,
           stdout = lines_text
             [''diff --git a/setup.py b/setup.py'', ''@@ -1,2 +1,3 @@'', ''+import os'']\<rparr>)])
        ''/w/r'' init_state)
   = Inr [(''a/setup.py'', [(CHR ''@'', ''-1,2 +1,3 @@'')])]"
  by code_simp

subsection \<open>A git command that fails\<close>

text \<open>
  C6. \<open>git_status_files\<close> runs the pass over the output of \<open>git diff --stat\<close> before it
  tests the exit status of \<open>git status\<close>. In a repository where \<open>git status\<close> exits with
  128 while \<open>git diff --stat\<close> succeeds and prints \<open> a.py | Unmerged\<close>, the pass raises
  \<open>TypeError\<close> through the logger call of its handler: \<open>git_status_files\<close> returns no
  empty list and prints no failure, and the \<open>status\<close> action is left by the exception
  before it reaches the repository that follows. When \<open>git diff --stat\<close> fails as well,
  the failure is printed, the result is empty and the next repository is processed.
\<close>

theorem failed_status_with_malformed_stat_raises_TypeError:
  "git_status_files
     (sample_world [([''git'', ''diff'', ''--stat''],
                     \<lparr>returncode = 0, stdout = lines_text ['' a.py | Unmerged'']\<rparr>)])
     0 ''/w/r'' False False init_state
   = Inl TypeError
   \<and> main (sample_world [([''git'', ''diff'', ''--stat''],
                            \<lparr>returncode = 0, stdout = lines_text ['' a.py | Unmerged'']\<rparr>)])
       ((sample_ns ''status'')\<lparr>ns_repo := Some [''r'', ''notes'']\<rparr>)
     = Inl TypeError
   \<and> map_sum id (\<lambda>r. (fst r, events (snd r)))
       (main (sample_world []) ((sample_ns ''status'')\<lparr>ns_repo := Some [''r'', ''notes'']\<rparr>))
     = Inr (None,
            [Ran ''/w/r'' [''git'', ''status'', ''--porcelain''],
             Ran ''/w/r'' [''git'', ''diff'', ''--stat''],
             Print ''git status failed for /w/r'',
             Ran ''/w/notes'' [''git'', ''status'', ''--porcelain''],
             Ran ''/w/notes'' [''git'', ''diff'', ''--stat''],
             Print ''git status failed for /w/notes''])"
  by code_simp

end
